theory Spec2Isabelle
  imports Complex_Main "HOL-Library.Word"
begin

unbundle bit_operations_syntax

section \<open>Python values and the tag record\<close>

text \<open>
  The development embeds the parts of \<^verbatim>\<open>tinytag.py\<close> that its specification makes
  claims about. Conventions:
  \<^item> a \<^verbatim>\<open>bytes\<close> object is a list of 8-bit words; a Python \<^verbatim>\<open>int\<close> is an \<open>int\<close>;
  \<^item> a Python \<^verbatim>\<open>str\<close> is a \<open>string\<close>, one \<open>char\<close> per code point, so code points
    above 255 are outside the model; strings are only compared, sliced and concatenated;
  \<^item> a Python \<^verbatim>\<open>float\<close> is a \<open>real\<close>: the arithmetic of durations and bitrates is
    idealised as exact, rounding is not modelled;
  \<^item> an exception is the left summand of a result \<open>error + 'a\<close>;
  \<^item> the debug printing guarded by \<^verbatim>\<open>DEBUG\<close> is left out.
\<close>

type_synonym byte = "8 word"

datatype pyval =
    PNone
  | PBool bool
  | PInt int
  | PFloat real
  | PStr string
  | PBytes "byte list"
  | PDict "(string \<times> pyval) list"
  | PObj nat

datatype error =
    TypeError
  | AttributeError
  | ValueError
  | StructError
  | ZeroDivisionError
  | UnicodeError
  | OSError
  | NotImplementedError
  | NameError
  | TinyTagException string
  | FailedToParse error

text \<open>
  \<open>FailedToParse e\<close> is the \<^verbatim>\<open>TinyTagException\<close> that \<^verbatim>\<open>TinyTag.get\<close> raises
  \<^verbatim>\<open>from\<close> an exception \<open>e\<close> of the parse, with the message
  \<^verbatim>\<open>Failed to parse file: <e>\<close>.
\<close>

text \<open>Truthiness (\<^verbatim>\<open>if x:\<close>) and \<^verbatim>\<open>isinstance(x, str)\<close>.\<close>

fun truthy :: "pyval \<Rightarrow> bool" where
  "truthy PNone = False"
| "truthy (PBool b) = b"
| "truthy (PInt i) = (i \<noteq> 0)"
| "truthy (PFloat r) = (r \<noteq> 0)"
| "truthy (PStr s) = (s \<noteq> [])"
| "truthy (PBytes b) = (b \<noteq> [])"
| "truthy (PDict d) = (d \<noteq> [])"
| "truthy (PObj _) = True"

fun is_str :: "pyval \<Rightarrow> bool" where
  "is_str (PStr _) = True"
| "is_str _ = False"

text \<open>
  An object is its \<^verbatim>\<open>__dict__\<close>: a map from attribute names to values. A Python
  \<^verbatim>\<open>dict\<close> held in an attribute (\<^verbatim>\<open>extra\<close>) is an association list in insertion order.
\<close>

type_synonym tinytag = "string \<rightharpoonup> pyval"

fun dict_set :: "string \<Rightarrow> pyval \<Rightarrow> (string \<times> pyval) list \<Rightarrow> (string \<times> pyval) list" where
  "dict_set k v [] = [(k, v)]"
| "dict_set k v ((k', v') # d) = (if k = k' then (k, v) # d else (k', v') # dict_set k v d)"

definition NUL :: char where
  "NUL = CHR 0x00"

definition thn :: "error + 'a \<Rightarrow> ('a \<Rightarrow> error + 'b) \<Rightarrow> error + 'b" where
  "thn m f = (case m of Inl e \<Rightarrow> Inl e | Inr x \<Rightarrow> f x)"

subsection \<open>\<^verbatim>\<open>TinyTag.__init__\<close>\<close>

definition tinytag_init :: tinytag where
  "tinytag_init =
     [''album'' \<mapsto> PNone, ''albumartist'' \<mapsto> PNone, ''artist'' \<mapsto> PNone,
      ''bitrate'' \<mapsto> PNone, ''channels'' \<mapsto> PNone, ''comment'' \<mapsto> PNone,
      ''disc'' \<mapsto> PNone, ''disc_total'' \<mapsto> PNone, ''duration'' \<mapsto> PNone,
      ''extra'' \<mapsto> PDict [], ''genre'' \<mapsto> PNone, ''samplerate'' \<mapsto> PNone,
      ''bitdepth'' \<mapsto> PNone, ''title'' \<mapsto> PNone, ''track'' \<mapsto> PNone,
      ''track_total'' \<mapsto> PNone, ''year'' \<mapsto> PNone, ''filesize'' \<mapsto> PInt 0,
      ''_filehandler'' \<mapsto> PNone, ''_filename'' \<mapsto> PNone,
      ''_default_encoding'' \<mapsto> PNone, ''_parse_tags'' \<mapsto> PBool True,
      ''_parse_duration'' \<mapsto> PBool True, ''_load_image'' \<mapsto> PBool False,
      ''_image_data'' \<mapsto> PNone, ''_tags_parsed'' \<mapsto> PBool False,
      ''_ignore_errors'' \<mapsto> PBool False]"

subsection \<open>\<^verbatim>\<open>TinyTag._set_field\<close> and \<^verbatim>\<open>TinyTag._update\<close>\<close>

text \<open>
  The value that \<^verbatim>\<open>_set_field\<close> stores, from \<^verbatim>\<open>old_value = write_dest.get(fieldname)\<close>
  (\<open>None\<close> for a missing key) and the new value. \<^verbatim>\<open>old_value + '\x00' + value\<close> raises
  \<^verbatim>\<open>TypeError\<close> when the old value is truthy and not a string.
\<close>

definition combine :: "pyval option \<Rightarrow> pyval \<Rightarrow> error + pyval" where
  "combine old_value v =
     (case old_value of
        None \<Rightarrow> Inr v
      | Some old \<Rightarrow>
          (if is_str v \<and> truthy old \<and> old \<noteq> v
           then (case (old, v) of
                   (PStr a, PStr b) \<Rightarrow> Inr (PStr (a @ [NUL] @ b))
                 | _ \<Rightarrow> Inl TypeError)
           else Inr v))"

definition set_field :: "tinytag \<Rightarrow> string \<Rightarrow> pyval \<Rightarrow> error + tinytag" where
  "set_field self fieldname v =
     (if is_str v \<and> \<not> truthy v then Inr self
      else if take 6 fieldname = ''extra.''
      then (case self ''extra'' of
              Some (PDict d) \<Rightarrow>
                thn (combine (map_of d (drop 6 fieldname)) v)
                  (\<lambda>v'. Inr (self(''extra'' \<mapsto> PDict (dict_set (drop 6 fieldname) v' d))))
            | _ \<Rightarrow> Inl AttributeError)
      else thn (combine (self fieldname) v) (\<lambda>v'. Inr (self(fieldname \<mapsto> v'))))"

definition update_keys :: "string list" where
  "update_keys =
     [''track'', ''track_total'', ''title'', ''artist'',
      ''album'', ''albumartist'', ''year'', ''duration'',
      ''genre'', ''disc'', ''disc_total'', ''comment'',
      ''bitdepth'', ''bitrate'', ''channels'', ''samplerate'',
      ''_image_data'']"

fun update_attrs :: "tinytag \<Rightarrow> tinytag \<Rightarrow> string list \<Rightarrow> error + tinytag" where
  "update_attrs self other [] = Inr self"
| "update_attrs self other (key # keys) =
     (case other key of
        None \<Rightarrow> Inl AttributeError
      | Some new_value \<Rightarrow>
          (if truthy new_value
           then (case set_field self key new_value of
                   Inl e \<Rightarrow> Inl e
                 | Inr self' \<Rightarrow> update_attrs self' other keys)
           else update_attrs self other keys))"

fun update_extra :: "tinytag \<Rightarrow> (string \<times> pyval) list \<Rightarrow> error + tinytag" where
  "update_extra self [] = Inr self"
| "update_extra self ((key, v) # items) =
     (case set_field self (''extra.'' @ key) v of
        Inl e \<Rightarrow> Inl e
      | Inr self' \<Rightarrow> update_extra self' items)"

definition update :: "tinytag \<Rightarrow> tinytag \<Rightarrow> error + tinytag" where
  "update self other =
     thn (update_attrs self other update_keys)
       (\<lambda>self'. case other ''extra'' of
                   Some (PDict d) \<Rightarrow> update_extra self' d
                 | _ \<Rightarrow> Inl AttributeError)"

section \<open>ID3: sizes\<close>

text \<open>\<^verbatim>\<open>_ID3._calc_size\<close>: a left fold of \<^verbatim>\<open>(accu << bits_per_byte) + elem\<close> from 0.\<close>

definition calc_size :: "int list \<Rightarrow> nat \<Rightarrow> int" where
  "calc_size bytestr bits_per_byte =
     foldl (\<lambda>accu elem. push_bit bits_per_byte accu + elem) 0 bytestr"

text \<open>
  Modelled from the spec: the synchsafe encoder. The repository only decodes; the
  specification describes the encoding as four bytes of seven payload bits each, most
  significant first.
\<close>

definition synchsafe_encode_spec :: "int \<Rightarrow> int list" where
  "synchsafe_encode_spec n =
     [drop_bit 21 n AND 127, drop_bit 14 n AND 127, drop_bit 7 n AND 127, n AND 127]"


section \<open>Byte sources\<close>

text \<open>
  A byte source is its content together with a position. \<^verbatim>\<open>read(n)\<close> returns what is
  left when fewer than \<open>n\<close> bytes are, and everything that is left for a negative \<open>n\<close>;
  a position past the end reads as empty. A relative seek to before the start raises
  \<^verbatim>\<open>OSError\<close>, as a file opened with \<^verbatim>\<open>open(filename, 'rb')\<close> does.
\<close>

definition bytes_of :: "string \<Rightarrow> byte list" where
  "bytes_of s = map (\<lambda>c. of_nat (of_char c)) s"

definition str_of :: "byte list \<Rightarrow> string" where
  "str_of bs = map (\<lambda>b. char_of (unat b)) bs"

definition fread :: "byte list \<Rightarrow> nat \<Rightarrow> int \<Rightarrow> byte list \<times> nat" where
  "fread fh pos n =
     (let bs = (if n < 0 then drop pos fh else take (nat n) (drop pos fh))
      in (bs, pos + length bs))"

definition seek_cur :: "nat \<Rightarrow> int \<Rightarrow> error + nat" where
  "seek_cur pos k = (if int pos + k < 0 then Inl OSError else Inr (nat (int pos + k)))"

text \<open>\<^verbatim>\<open>struct.unpack\<close>: the buffer must have exactly the size of the format.\<close>

definition be_uint :: "byte list \<Rightarrow> int" where
  "be_uint bs = foldl (\<lambda>a b. a * 256 + uint b) 0 bs"

definition le_uint :: "byte list \<Rightarrow> int" where
  "le_uint bs = be_uint (rev bs)"

definition to_signed :: "nat \<Rightarrow> int \<Rightarrow> int" where
  "to_signed bits u = (if 2 ^ (bits - 1) \<le> u then u - 2 ^ bits else u)"

definition unpack_be :: "nat \<Rightarrow> byte list \<Rightarrow> error + int" where
  "unpack_be n bs = (if length bs = n then Inr (be_uint bs) else Inl StructError)"

definition unpack_be_signed :: "nat \<Rightarrow> byte list \<Rightarrow> error + int" where
  "unpack_be_signed n bs =
     (if length bs = n then Inr (to_signed (8 * n) (be_uint bs)) else Inl StructError)"

definition unpack_le :: "nat \<Rightarrow> byte list \<Rightarrow> error + int" where
  "unpack_le n bs = (if length bs = n then Inr (le_uint bs) else Inl StructError)"

definition unpack_le_signed :: "nat \<Rightarrow> byte list \<Rightarrow> error + int" where
  "unpack_le_signed n bs =
     (if length bs = n then Inr (to_signed (8 * n) (le_uint bs)) else Inl StructError)"

text \<open>\<^verbatim>\<open>TinyTag._bytes_to_int\<close>.\<close>

definition bytes_to_int :: "int list \<Rightarrow> int" where
  "bytes_to_int b = foldl (\<lambda>accu elem. push_bit 8 accu + elem) 0 b"


definition startswith :: "'a list \<Rightarrow> 'a list \<Rightarrow> bool" where
  "startswith s pre = (take (length pre) s = pre)"

fun find_from :: "'a list \<Rightarrow> 'a list \<Rightarrow> nat \<Rightarrow> nat option" where
  "find_from sub [] i = (if sub = [] then Some i else None)"
| "find_from sub (x # xs) i =
     (if startswith (x # xs) sub then Some i else find_from sub xs (Suc i))"

definition find_bytes :: "byte list \<Rightarrow> byte list \<Rightarrow> nat \<Rightarrow> nat option" where
  "find_bytes b sub start = find_from sub (drop start b) start"

section \<open>Format sniffing and the entry point\<close>

datatype parser_class = TinyTag_class | ID3 | Ogg | Wave | Flac | Wma | MP4 | Aiff




text \<open>
  \<^verbatim>\<open>str.lower()\<close> on code points up to 255 (the ASCII and the Latin-1 capitals) and
  \<^verbatim>\<open>bytes.lower()\<close> (the ASCII capitals only); \<^verbatim>\<open>str.encode('ascii')\<close> raises
  \<^verbatim>\<open>UnicodeEncodeError\<close> on a code point above 127.
\<close>

definition py_lower_char :: "char \<Rightarrow> char" where
  "py_lower_char c =
     (let n = (of_char c :: nat)
      in if (65 \<le> n \<and> n \<le> 90) \<or> (192 \<le> n \<and> n \<le> 222 \<and> n \<noteq> 215)
         then char_of (n + 32) else c)"

definition py_lower :: "string \<Rightarrow> string" where
  "py_lower s = map py_lower_char s"

















text \<open>The constructors: \<^verbatim>\<open>_ID3\<close> and \<^verbatim>\<open>_Ogg\<close> add an attribute of their own.\<close>

definition class_init :: "parser_class \<Rightarrow> tinytag" where
  "class_init c =
     (if c = ID3 then tinytag_init(''_bytepos_after_id3v2'' \<mapsto> PInt (- 1))
      else if c = Ogg then tinytag_init(''_max_samplenum'' \<mapsto> PInt 0)
      else tinytag_init)"

text \<open>
  The two passes of a container decoder, \<^verbatim>\<open>_parse_tag\<close> and \<^verbatim>\<open>_determine_duration\<close>,
  act on the object and the position of the byte source. \<^verbatim>\<open>TinyTag.get\<close> and
  \<^verbatim>\<open>TinyTag._load\<close> dispatch on the class; the table of decoders is a parameter.
  In the base class both passes raise \<^verbatim>\<open>NotImplementedError\<close>.
\<close>

type_synonym pass = "byte list \<Rightarrow> tinytag \<times> nat \<Rightarrow> error + tinytag \<times> nat"



definition attr_truthy :: "tinytag \<Rightarrow> string \<Rightarrow> bool" where
  "attr_truthy self name = (case self name of Some v \<Rightarrow> truthy v | None \<Rightarrow> False)"

text \<open>\<^verbatim>\<open>TinyTag._load\<close>, given the two passes of the object's class.\<close>

definition load_obj :: "pass \<Rightarrow> pass \<Rightarrow> byte list \<Rightarrow> bool \<Rightarrow> bool \<Rightarrow> bool
                          \<Rightarrow> tinytag \<times> nat \<Rightarrow> error + tinytag \<times> nat" where
  "load_obj parse_tag_pass determine_duration_pass fh tags duration img st =
     (let self = (fst st)(''_parse_tags'' \<mapsto> PBool tags, ''_parse_duration'' \<mapsto> PBool duration,
                          ''_load_image'' \<mapsto> PBool img)
      in if \<not> attr_truthy self ''_filehandler''
         then Inl (TinyTagException ''No file object set'')
         else thn (if tags then parse_tag_pass fh (self, snd st) else Inr (self, snd st))
                (\<lambda>st'. if duration
                        then determine_duration_pass fh (if tags then (fst st', 0) else st')
                        else Inr st'))"





section \<open>ID3 tags and MP3 duration\<close>

text \<open>
  Library functions whose semantics the development does not fix are parameters:
  \<open>codec\<close> is \<^verbatim>\<open>bytes.decode(encoding, errors)\<close> for every codec other than Latin-1,
  \<open>py_int\<close> is \<^verbatim>\<open>int(s)\<close> (\<open>None\<close> for a \<^verbatim>\<open>ValueError\<close>) and \<open>b64decode\<close> is
  \<^verbatim>\<open>base64.b64decode\<close>. Latin-1 maps every byte to the code point of the same number.
\<close>

record pylib =
  codec :: "string \<Rightarrow> string \<Rightarrow> byte list \<Rightarrow> error + string"
  py_int :: "string \<Rightarrow> int option"
  b64decode :: "string \<Rightarrow> error + byte list"

definition decode :: "pylib \<Rightarrow> string \<Rightarrow> string \<Rightarrow> byte list \<Rightarrow> error + string" where
  "decode L encoding errors bs =
     (if encoding = ''ISO-8859-1'' \<or> encoding = ''latin1'' then Inr (str_of bs)
      else codec L encoding errors bs)"

definition FRAME_ID_TO_FIELD :: "(string \<times> string) list" where
  "FRAME_ID_TO_FIELD =
     [(''COMM'', ''comment''), (''COM'', ''comment''), (''TRCK'', ''track''),
      (''TRK'', ''track''), (''TYER'', ''year''), (''TYE'', ''year''),
      (''TDRC'', ''year''), (''TALB'', ''album''), (''TAL'', ''album''),
      (''TPE1'', ''artist''), (''TP1'', ''artist''), (''TIT2'', ''title''),
      (''TT2'', ''title''), (''TCON'', ''genre''), (''TCO'', ''genre''),
      (''TPOS'', ''disc''), (''TPA'', ''disc''), (''TPE2'', ''albumartist''),
      (''TP2'', ''albumartist''), (''TCOM'', ''extra.composer''),
      (''TCM'', ''extra.composer''), (''WOAR'', ''extra.url''), (''WAR'', ''extra.url''),
      (''TSRC'', ''extra.isrc''), (''TCOP'', ''extra.copyright''),
      (''TCR'', ''extra.copyright''), (''TBPM'', ''extra.bpm''),
      (''TKEY'', ''extra.initial_key''), (''TLAN'', ''extra.language''),
      (''TLA'', ''extra.language''), (''TPUB'', ''extra.publisher''),
      (''TPB'', ''extra.publisher''), (''USLT'', ''extra.lyrics''),
      (''ULT'', ''extra.lyrics'')]"

definition IMAGE_FRAME_IDS :: "string list" where
  "IMAGE_FRAME_IDS = [''APIC'', ''PIC'']"

definition CUSTOM_FRAME_IDS :: "string list" where
  "CUSTOM_FRAME_IDS = [''TXXX'', ''TXX'']"

definition DISALLOWED_FRAME_IDS :: "string list" where
  "DISALLOWED_FRAME_IDS =
     [''PRIV'', ''RGAD'', ''GEOB'', ''GEO'', [CHR 0xFF, CHR 0xFB, CHR 0xB0, CHR ''d'']]"

definition ID3V1_GENRES :: "string list" where
  "ID3V1_GENRES =
     [''Blues'', ''Classic Rock'', ''Country'', ''Dance'', ''Disco'', ''Funk'', ''Grunge'',
      ''Hip-Hop'', ''Jazz'', ''Metal'', ''New Age'', ''Oldies'', ''Other'', ''Pop'',
      ''R&B'', ''Rap'', ''Reggae'', ''Rock'', ''Techno'', ''Industrial'', ''Alternative'',
      ''Ska'', ''Death Metal'', ''Pranks'', ''Soundtrack'', ''Euro-Techno'', ''Ambient'',
      ''Trip-Hop'', ''Vocal'', ''Jazz+Funk'', ''Fusion'', ''Trance'', ''Classical'',
      ''Instrumental'', ''Acid'', ''House'', ''Game'', ''Sound Clip'', ''Gospel'',
      ''Noise'', ''AlternRock'', ''Bass'', ''Soul'', ''Punk'', ''Space'', ''Meditative'',
      ''Instrumental Pop'', ''Instrumental Rock'', ''Ethnic'', ''Gothic'', ''Darkwave'',
      ''Techno-Industrial'', ''Electronic'', ''Pop-Folk'', ''Eurodance'', ''Dream'',
      ''Southern Rock'', ''Comedy'', ''Cult'', ''Gangsta'', ''Top 40'', ''Christian Rap'',
      ''Pop/Funk'', ''Jungle'', ''Native American'', ''Cabaret'', ''New Wave'',
      ''Psychadelic'', ''Rave'', ''Showtunes'', ''Trailer'', ''Lo-Fi'', ''Tribal'',
      ''Acid Punk'', ''Acid Jazz'', ''Polka'', ''Retro'', ''Musical'', ''Rock & Roll'',
      ''Hard Rock'', ''Folk'', ''Folk-Rock'', ''National Folk'', ''Swing'',
      ''Fast Fusion'', ''Bebob'', ''Latin'', ''Revival'', ''Celtic'', ''Bluegrass'',
      ''Avantgarde'', ''Gothic Rock'', ''Progressive Rock'', ''Psychedelic Rock'',
      ''Symphonic Rock'', ''Slow Rock'', ''Big Band'', ''Chorus'', ''Easy Listening'',
      ''Acoustic'', ''Humour'', ''Speech'', ''Chanson'', ''Opera'', ''Chamber Music'',
      ''Sonata'', ''Symphony'', ''Booty Bass'', ''Primus'', ''Porn Groove'', ''Satire'',
      ''Slow Jam'', ''Club'', ''Tango'', ''Samba'', ''Folklore'', ''Ballad'',
      ''Power Ballad'', ''Rhythmic Soul'', ''Freestyle'', ''Duet'', ''Punk Rock'',
      ''Drum Solo'', ''A capella'', ''Euro-House'', ''Dance Hall'', ''Goa'',
      ''Drum & Bass'', ''Club-House'', ''Hardcore Techno'', ''Terror'', ''Indie'',
      ''BritPop'', '''', ''Polsk Punk'', ''Beat'', ''Christian Gangsta Rap'',
      ''Heavy Metal'', ''Black Metal'', ''Contemporary Christian'', ''Christian Rock'',
      ''Merengue'', ''Salsa'', ''Thrash Metal'', ''Anime'', ''Jpop'', ''Synthpop'',
      ''Abstract'', ''Art Rock'', ''Baroque'', ''Bhangra'', ''Big Beat'', ''Breakbeat'',
      ''Chillout'', ''Downtempo'', ''Dub'', ''EBM'', ''Eclectic'', ''Electro'',
      ''Electroclash'', ''Emo'', ''Experimental'', ''Garage'', ''Illbient'',
      ''Industro-Goth'', ''Jam Band'', ''Krautrock'', ''Leftfield'', ''Lounge'',
      ''Math Rock'', ''New Romantic'', ''Nu-Breakz'', ''Post-Punk'', ''Post-Rock'',
      ''Psytrance'', ''Shoegaze'', ''Space Rock'', ''Trop Rock'', ''World Music'',
      ''Neoclassical'', ''Audiobook'', ''Audio Theatre'', ''Neue Deutsche Welle'',
      ''Podcast'', ''Indie Rock'', ''G-Funk'', ''Dubstep'', ''Garage Rock'', ''Psybient'']"

definition samplerates :: "int list list" where
  "samplerates =
     [[11025, 12000, 8000],
      [],
      [22050, 24000, 16000],
      [44100, 48000, 32000]]"

definition v1l1 :: "int list" where
  "v1l1 = [0, 32, 64, 96, 128, 160, 192, 224, 256, 288, 320, 352, 384, 416, 448, 0]"

definition v1l2 :: "int list" where
  "v1l2 = [0, 32, 48, 56, 64, 80, 96, 112, 128, 160, 192, 224, 256, 320, 384, 0]"

definition v1l3 :: "int list" where
  "v1l3 = [0, 32, 40, 48, 56, 64, 80, 96, 112, 128, 160, 192, 224, 256, 320, 0]"

definition v2l1 :: "int list" where
  "v2l1 = [0, 32, 48, 56, 64, 80, 96, 112, 128, 144, 160, 176, 192, 224, 256, 0]"

definition v2l2 :: "int list" where
  "v2l2 = [0, 8, 16, 24, 32, 40, 48, 56, 64, 80, 96, 112, 128, 144, 160, 0]"

definition v2l3 :: "int list" where
  "v2l3 = v2l2"

text \<open>
  The entries that are \<^verbatim>\<open>None\<close> in the source (the reserved version, the reserved
  layer) are empty lists; the frame check keeps the scan from reading them.
\<close>

definition bitrate_by_version_by_layer :: "int list list list" where
  "bitrate_by_version_by_layer =
     [[[], v2l3, v2l2, v2l1],
      [],
      [[], v2l3, v2l2, v2l1],
      [[], v1l3, v1l2, v1l1]]"

definition samples_per_frame :: int where
  "samples_per_frame = 1152"

definition channels_per_channel_mode :: "int list" where
  "channels_per_channel_mode = [2, 2, 2, 1]"

definition MAX_ESTIMATION_SEC :: int where
  "MAX_ESTIMATION_SEC = 30"

definition CBR_DETECTION_FRAME_COUNT :: int where
  "CBR_DETECTION_FRAME_COUNT = 5"

definition USE_XING_HEADER :: bool where
  "USE_XING_HEADER = True"

subsection \<open>Text decoding\<close>

text \<open>\<^verbatim>\<open>TinyTag._unpad\<close>: \<^verbatim>\<open>s.strip('\x00')\<close>.\<close>

definition unpad :: "string \<Rightarrow> string" where
  "unpad s = rev (dropWhile (\<lambda>c. c = NUL) (rev (dropWhile (\<lambda>c. c = NUL) s)))"

definition bytes_isalpha :: "byte list \<Rightarrow> bool" where
  "bytes_isalpha bs =
     (bs \<noteq> [] \<and>
      list_all (\<lambda>b. (65 \<le> unat b \<and> unat b \<le> 90) \<or> (97 \<le> unat b \<and> unat b \<le> 122)) bs)"

definition is_bom :: "byte list \<Rightarrow> bool" where
  "is_bom bs = (bs = [0xFE, 0xFF] \<or> bs = [0xFF, 0xFE])"

definition default_encoding :: "tinytag \<Rightarrow> string" where
  "default_encoding self =
     (case self ''_default_encoding'' of
        Some (PStr e) \<Rightarrow> (if e \<noteq> [] then e else ''ISO-8859-1'')
      | _ \<Rightarrow> ''ISO-8859-1'')"

definition decode_string :: "pylib \<Rightarrow> tinytag \<Rightarrow> byte list \<Rightarrow> bool \<Rightarrow> error + string" where
  "decode_string L self bytestr language =
     (let first_byte = take 1 bytestr;
          r = (if first_byte = [0x00] then (drop 1 bytestr, default_encoding self)
               else if first_byte = [0x01]
               then (let b1 = drop 1 bytestr;
                         b2 = (if language
                               then (let x = (if is_bom (take 2 (drop 3 b1)) then drop 3 b1 else b1);
                                         y = (if bytes_isalpha (take 3 x) then drop 3 x else x)
                                     in dropWhile (\<lambda>b. b = 0) y)
                               else b1);
                         encoding = (if take 2 b2 = [0xFE, 0xFF] then ''UTF-16be'' else ''UTF-16le'');
                         b3 = (if is_bom (take 2 b2)
                               then (if even (length b2) then drop 2 b2 else drop 2 (butlast b2))
                               else b2);
                         b4 = (if take 4 b3 = [0x00, 0x00, 0xFF, 0xFE] then drop 4 b3 else b3)
                     in (b4, encoding))
               else if first_byte = [0x02]
               then ((if even (length bytestr) then drop 1 (butlast bytestr) else drop 1 bytestr),
                     ''UTF-16le'')
               else if first_byte = [0x03] then (drop 1 bytestr, ''UTF-8'')
               else (bytestr, default_encoding self));
          b5 = (if language \<and> bytes_isalpha (take 3 (fst r)) then drop 3 (fst r) else fst r);
          errors = (if attr_truthy self ''_ignore_errors'' then ''ignore'' else ''strict'')
      in thn (decode L (snd r) errors b5) (\<lambda>s. Inr (unpad s)))"

subsection \<open>ID3v2 frames\<close>

text \<open>
  \<^verbatim>\<open>_ID3.__parse_custom_field\<close>, with \<^verbatim>\<open>content.partition('\x00')\<close> written out. The
  byte order mark that \<^verbatim>\<open>lstrip\<close> removes from the value is a code point above 255.
\<close>

definition parse_custom_field :: "tinytag \<Rightarrow> string \<Rightarrow> error + bool \<times> tinytag" where
  "parse_custom_field self content =
     (let custom_field_name = takeWhile (\<lambda>c. c \<noteq> NUL) content;
          separator = (NUL \<in> set content);
          v = drop 1 (dropWhile (\<lambda>c. c \<noteq> NUL) content)
      in if custom_field_name \<noteq> [] \<and> separator
         then thn (set_field self (''extra.'' @ py_lower custom_field_name) (PStr v))
                (\<lambda>self'. Inr (True, self'))
         else Inr (False, self))"

text \<open>\<^verbatim>\<open>_ID3._index_utf16\<close>, for a search string of one or two bytes.\<close>

fun index_utf16 :: "byte list \<Rightarrow> byte list \<Rightarrow> nat \<Rightarrow> int" where
  "index_utf16 [] search i = - 1"
| "index_utf16 (x # xs) search i =
     (if take (length search) (x # xs) = search then int i
      else index_utf16 (drop (length search - 1) xs) search (i + length search))"

text \<open>\<^verbatim>\<open>str.isdigit()\<close> on code points up to 255: the ASCII digits and the superscripts.\<close>

definition py_isdigit :: "string \<Rightarrow> bool" where
  "py_isdigit s =
     (s \<noteq> [] \<and>
      list_all (\<lambda>c. (48 \<le> (of_char c :: nat) \<and> (of_char c :: nat) \<le> 57)
                     \<or> (of_char c :: nat) = 178 \<or> (of_char c :: nat) = 179
                     \<or> (of_char c :: nat) = 185) s)"

text \<open>
  The body of the \<^verbatim>\<open>try\<close> in \<^verbatim>\<open>_parse_frame\<close> for a frame with a canonical field, with
  its \<^verbatim>\<open>except ValueError\<close> (the field is left as it is) and its \<^verbatim>\<open>else\<close>.
\<close>

definition frame_field :: "pylib \<Rightarrow> tinytag \<Rightarrow> string \<Rightarrow> string \<Rightarrow> error + tinytag" where
  "frame_field L self fieldname v =
     (if fieldname = ''comment''
      then thn (parse_custom_field self v)
             (\<lambda>r. if fst r then Inr (snd r) else set_field (snd r) fieldname (PStr v))
      else if fieldname = ''track'' \<or> fieldname = ''disc''
      then (if CHR ''/'' \<in> set v
            then (let v1 = takeWhile (\<lambda>c. c \<noteq> CHR ''/'') v;
                      total = takeWhile (\<lambda>c. c \<noteq> CHR ''/'')
                                (drop 1 (dropWhile (\<lambda>c. c \<noteq> CHR ''/'') v))
                  in case py_int L total of
                       None \<Rightarrow> Inr self
                     | Some t \<Rightarrow>
                         thn (set_field self (fieldname @ ''_total'') (PInt t))
                           (\<lambda>self'. case py_int L v1 of
                                       None \<Rightarrow> Inr self'
                                     | Some n \<Rightarrow> set_field self' fieldname (PInt n)))
            else (case py_int L v of
                    None \<Rightarrow> Inr self
                  | Some n \<Rightarrow> set_field self fieldname (PInt n)))
      else if fieldname = ''genre''
      then (let genre_id =
                  (if py_isdigit v then py_int L v
                   else if take 1 v = ''('' \<and> v \<noteq> [] \<and> last v = CHR '')''
                           \<and> py_isdigit (drop 1 (butlast v))
                   then py_int L (drop 1 (butlast v))
                   else Some 255)
            in case genre_id of
                 None \<Rightarrow> Inr self
               | Some g \<Rightarrow>
                   set_field self fieldname
                     (PStr (if 0 \<le> g \<and> g < int (length ID3V1_GENRES)
                            then ID3V1_GENRES ! nat g else v)))
      else set_field self fieldname (PStr v))"

definition frame_image :: "tinytag \<Rightarrow> string \<Rightarrow> byte list \<Rightarrow> error + tinytag" where
  "frame_image self frame_id content =
     (let encoding = take 1 content;
          termination = (if encoding = [0x00] \<or> encoding = [0x03] then [0x00] else [0x00, 0x00])
      in thn (if frame_id = ''PIC'' then Inr 5
              else (case find_bytes content [0x00] 1 of
                      None \<Rightarrow> Inl ValueError
                    | Some i \<Rightarrow> Inr (i + 1 + 1)))
           (\<lambda>desc_start_pos.
              let desc_length = index_utf16 (drop desc_start_pos content) termination 0;
                  desc_end_pos = int desc_start_pos + desc_length + int (length termination)
              in Inr (self(''_image_data'' \<mapsto> PBytes (drop (nat desc_end_pos) content)))))"

definition frame_body :: "pylib \<Rightarrow> tinytag \<Rightarrow> string \<Rightarrow> byte list \<Rightarrow> error + tinytag" where
  "frame_body L self frame_id content =
     (case map_of FRAME_ID_TO_FIELD frame_id of
        Some fieldname \<Rightarrow>
          (if \<not> attr_truthy self ''_parse_tags'' then Inr self
           else thn (decode_string L self content
                       (fieldname = ''comment'' \<or> fieldname = ''extra.lyrics''))
                  (\<lambda>v. frame_field L self fieldname v))
      | None \<Rightarrow>
          (if frame_id \<in> set CUSTOM_FRAME_IDS
           then (if attr_truthy self ''_parse_tags''
                 then thn (decode_string L self content False)
                        (\<lambda>c. thn (parse_custom_field self c) (\<lambda>r. Inr (snd r)))
                 else Inr self)
           else if frame_id \<in> set IMAGE_FRAME_IDS
           then (if attr_truthy self ''_load_image'' then frame_image self frame_id content
                 else Inr self)
           else if frame_id \<notin> set DISALLOWED_FRAME_IDS
           then (if attr_truthy self ''_parse_tags''
                 then thn (decode_string L self content False)
                        (\<lambda>v. set_field self (''extra.'' @ py_lower frame_id) (PStr v))
                 else Inr self)
           else Inr self))"

text \<open>\<^verbatim>\<open>_ID3._parse_frame\<close>: the frame size it returns, the object and the position.\<close>

definition parse_frame :: "pylib \<Rightarrow> byte list \<Rightarrow> tinytag \<times> nat \<Rightarrow> int
                             \<Rightarrow> error + int \<times> tinytag \<times> nat" where
  "parse_frame L fh st id3version =
     (let frame_header_size = (if id3version = 2 then 6 else 10);
          frame_size_bytes = (if id3version = 2 then 3 else 4);
          id_bytes = (if id3version = 2 then 3 else 4);
          bits_per_byte = (if id3version = 4 then 7 else 8);
          rd = fread fh (snd st) frame_header_size;
          frame_header_data = fst rd
      in if int (length frame_header_data) \<noteq> frame_header_size then Inr (0, fst st, snd rd)
         else thn (decode_string L (fst st) (take id_bytes frame_header_data) False)
                (\<lambda>frame_id.
                   let frame_size = calc_size (map uint (take frame_size_bytes
                                      (drop id_bytes frame_header_data))) bits_per_byte
                   in if 0 < frame_size
                      then (let rc = fread fh (snd rd) frame_size
                            in thn (frame_body L (fst st) frame_id (fst rc))
                                 (\<lambda>self'. Inr (frame_size, self', snd rc)))
                      else Inr (0, fst st, snd rd)))"

subsection \<open>ID3v2 and ID3v1 tags\<close>

text \<open>
  \<^verbatim>\<open>_ID3._parse_id3v2_header\<close>: the object, the position, and \<open>(size, extended, major)\<close>.
\<close>

definition parse_id3v2_header :: "byte list \<Rightarrow> tinytag \<times> nat
                                    \<Rightarrow> error + (tinytag \<times> nat) \<times> int \<times> bool \<times> int" where
  "parse_id3v2_header fh st =
     (let rd = fread fh (snd st) 10; header = fst rd
      in if length header \<noteq> 10 then Inl StructError
         else (let is_id3 = (str_of (take 3 header) = ''ID3'');
                   major = (if is_id3 then uint (header ! 3) else 0);
                   extended = (is_id3 \<and> 0 < (uint (header ! 5) AND 0x40));
                   tag_size = (if is_id3 then calc_size (map uint (take 4 (drop 6 header))) 7 else 0)
               in Inr (((fst st)(''_bytepos_after_id3v2'' \<mapsto> PInt tag_size), snd rd),
                       tag_size, extended, major)))"

text \<open>The loop over the frames of \<^verbatim>\<open>_ID3._parse_id3v2\<close>.\<close>

function parse_frames :: "pylib \<Rightarrow> byte list \<Rightarrow> int \<Rightarrow> int \<Rightarrow> int \<Rightarrow> tinytag \<times> nat
                            \<Rightarrow> error + tinytag \<times> nat" where
  "parse_frames L fh major tag_size parsed_size st =
     (if parsed_size < tag_size
      then (case parse_frame L fh st major of
              Inl e \<Rightarrow> Inl e
            | Inr r \<Rightarrow>
                (if fst r = 0 then Inr (snd r)
                 else parse_frames L fh major tag_size (parsed_size + fst r) (snd r)))
      else Inr st)"
  by pat_completeness auto

lemma parse_frame_size_nonneg:
  "parse_frame L fh st id3version = Inr r \<Longrightarrow> 0 \<le> fst r"
  by (auto simp: parse_frame_def thn_def Let_def split: if_splits sum.splits)

termination parse_frames
  by (relation "measure (\<lambda>(L, fh, major, tag_size, parsed_size, st). nat (tag_size - parsed_size))")
     (auto dest: parse_frame_size_nonneg)

declare parse_frames.simps [simp del]

definition seek_end :: "byte list \<Rightarrow> int \<Rightarrow> error + nat" where
  "seek_end fh k = (if int (length fh) + k < 0 then Inl OSError else Inr (nat (int (length fh) + k)))"

definition parse_id3v2 :: "pylib \<Rightarrow> byte list \<Rightarrow> tinytag \<times> nat \<Rightarrow> error + tinytag \<times> nat" where
  "parse_id3v2 L fh st =
     thn (parse_id3v2_header fh st)
       (\<lambda>h. let st1 = fst h; tag_size = fst (snd h); extended = fst (snd (snd h));
                 major = snd (snd (snd h))
             in if tag_size \<noteq> 0
                then (let end_pos = int (snd st1) + tag_size
                      in thn (if extended
                              then (let rd = fread fh (snd st1) 6; size_bytes = take 4 (fst rd)
                                    in if length size_bytes \<noteq> 4 then Inl StructError
                                       else thn (seek_cur (snd rd)
                                                   (calc_size (map uint size_bytes) 7 - 6))
                                              (\<lambda>p. Inr (fst st1, p)))
                              else Inr st1)
                           (\<lambda>st2. thn (parse_frames L fh major tag_size 0 st2)
                                    (\<lambda>st3. Inr (fst st3, nat end_pos))))
                else Inr st1)"

text \<open>Comparison of \<^verbatim>\<open>bytes\<close> objects: lexicographic, a proper prefix is smaller.\<close>

fun bytes_gt :: "byte list \<Rightarrow> byte list \<Rightarrow> bool" where
  "bytes_gt [] ys = False"
| "bytes_gt (x # xs) [] = True"
| "bytes_gt (x # xs) (y # ys) = (y < x \<or> (x = y \<and> bytes_gt xs ys))"

definition encoding_or :: "tinytag \<Rightarrow> string \<Rightarrow> string" where
  "encoding_or self fallback =
     (case self ''_default_encoding'' of
        Some (PStr e) \<Rightarrow> (if e \<noteq> [] then e else fallback)
      | _ \<Rightarrow> fallback)"

definition asciidecode :: "pylib \<Rightarrow> tinytag \<Rightarrow> byte list \<Rightarrow> error + pyval" where
  "asciidecode L self x =
     thn (decode L (encoding_or self ''latin1'') ''strict'' x) (\<lambda>s. Inr (PStr (unpad s)))"

definition set_if_unset :: "pylib \<Rightarrow> tinytag \<Rightarrow> string \<Rightarrow> byte list \<Rightarrow> error + tinytag" where
  "set_if_unset L self fieldname raw =
     (if \<not> attr_truthy self fieldname
      then thn (asciidecode L self raw) (\<lambda>v. set_field self fieldname v)
      else Inr self)"

definition parse_id3v1 :: "pylib \<Rightarrow> byte list \<Rightarrow> tinytag \<times> nat \<Rightarrow> error + tinytag \<times> nat" where
  "parse_id3v1 L fh st =
     (let r3 = fread fh (snd st) 3
      in if fst r3 \<noteq> bytes_of ''TAG'' then Inr (fst st, snd r3)
         else (let rf = fread fh (snd r3) (30 + 30 + 30 + 4 + 30 + 1); fields = fst rf;
                   comment = take 30 (drop 94 fields);
                   has_track = (bytes_gt (drop (length comment - 2) comment) [0x00, 0x00]
                                  \<and> bytes_gt [0x01, 0x00] (drop (length comment - 2) comment))
               in thn (set_if_unset L (fst st) ''title'' (take 30 fields))
                 (\<lambda>s1. thn (set_if_unset L s1 ''artist'' (take 30 (drop 30 fields)))
                 (\<lambda>s2. thn (set_if_unset L s2 ''album'' (take 30 (drop 60 fields)))
                 (\<lambda>s3. thn (set_if_unset L s3 ''year'' (take 4 (drop 90 fields)))
                 (\<lambda>s4. thn (if has_track \<and> s4 ''track'' = Some PNone
                             then set_field s4 ''track'' (PInt (uint (last comment)))
                             else Inr s4)
                 (\<lambda>s5. thn (set_if_unset L s5 ''comment''
                               (if has_track then take (length comment - 2) comment else comment))
                 (\<lambda>s6. if \<not> attr_truthy s6 ''genre''
                        then (case take 1 (drop 124 fields) of
                                [] \<Rightarrow> Inl TypeError
                              | g # _ \<Rightarrow>
                                  (if unat g < length ID3V1_GENRES
                                   then thn (set_field s6 ''genre'' (PStr (ID3V1_GENRES ! unat g)))
                                          (\<lambda>s7. Inr (s7, snd rf))
                                   else Inr (s6, snd rf)))
                        else Inr (s6, snd rf)))))))))"

definition int_attr :: "tinytag \<Rightarrow> string \<Rightarrow> int" where
  "int_attr self name = (case self name of Some (PInt n) \<Rightarrow> n | _ \<Rightarrow> 0)"

text \<open>\<^verbatim>\<open>_ID3._parse_tag\<close>.\<close>

definition id3_parse_tag :: "pylib \<Rightarrow> byte list \<Rightarrow> tinytag \<times> nat \<Rightarrow> error + tinytag \<times> nat" where
  "id3_parse_tag L fh st =
     thn (parse_id3v2 L fh st)
       (\<lambda>st1. if 128 < int_attr (fst st1) ''filesize''
               then thn (seek_end fh (- 128)) (\<lambda>p. parse_id3v1 L fh (fst st1, p))
               else Inr st1)"

subsection \<open>MP3 duration\<close>

text \<open>
  \<^verbatim>\<open>_ID3._parse_xing_header\<close> on the walker at a position: the frame count, the byte
  count and the position after the header.
\<close>

definition parse_xing_header :: "byte list \<Rightarrow> nat \<Rightarrow> error + int \<times> int \<times> nat" where
  "parse_xing_header fh pos =
     (let r0 = fread fh (pos + 4) 4
      in thn (unpack_be_signed 4 (fst r0))
           (\<lambda>header_flags.
              thn (if header_flags AND 1 \<noteq> 0
                   then (let r1 = fread fh (snd r0) 4
                         in thn (unpack_be_signed 4 (fst r1)) (\<lambda>n. Inr (n, snd r1)))
                   else Inr (0, snd r0))
                (\<lambda>f. thn (if header_flags AND 2 \<noteq> 0
                           then (let r2 = fread fh (snd f) 4
                                 in thn (unpack_be_signed 4 (fst r2)) (\<lambda>n. Inr (n, snd r2)))
                           else Inr (0, snd f))
                        (\<lambda>c. let p1 = (if header_flags AND 4 \<noteq> 0 then snd c + 100 else snd c);
                                  p2 = (if header_flags AND 8 \<noteq> 0 then p1 + 4 else p1)
                              in Inr (fst f, fst c, p2)))))"

text \<open>The local variables of the scanning loop of \<^verbatim>\<open>_ID3._determine_duration\<close>.\<close>

record scan =
  wpos :: nat
  frames :: int
  bitrate_accu :: int
  last_bitrates :: "int list"
  frame_size_accu :: int
  audio_offset :: "int option"

definition max_estimation_frames :: int where
  "max_estimation_frames = (MAX_ESTIMATION_SEC * 44100) div samples_per_frame"

text \<open>A number as an operand of \<^verbatim>\<open>/\<close>; anything else raises \<^verbatim>\<open>TypeError\<close>.\<close>

definition as_real :: "pyval \<Rightarrow> error + real" where
  "as_real v = (case v of PInt n \<Rightarrow> Inr (real_of_int n) | PFloat r \<Rightarrow> Inr r
                | PBool b \<Rightarrow> Inr (if b then 1 else 0) | _ \<Rightarrow> Inl TypeError)"

definition truediv :: "real \<Rightarrow> real \<Rightarrow> error + real" where
  "truediv a b = (if b = 0 then Inl ZeroDivisionError else Inr (a / b))"

text \<open>
  What follows the loop when it ends by \<^verbatim>\<open>break\<close>:
  \<^verbatim>\<open>if self.samplerate: self.duration = frames * samples_per_frame / samplerate\<close>.
\<close>

definition after_scan :: "tinytag \<Rightarrow> int \<Rightarrow> error + tinytag" where
  "after_scan self n =
     (if attr_truthy self ''samplerate''
      then thn (as_real (the (self ''samplerate'')))
             (\<lambda>sr. thn (truediv (real_of_int (n * samples_per_frame)) sr)
                     (\<lambda>d. Inr (self(''duration'' \<mapsto> PFloat d))))
      else Inr self)"

text \<open>The fields of the four header bytes at the start of the peeked buffer.\<close>

definition br_id :: "byte list \<Rightarrow> int" where
  "br_id b = drop_bit 4 (uint (b ! 2)) AND 0x0F"

definition sr_id :: "byte list \<Rightarrow> int" where
  "sr_id b = drop_bit 2 (uint (b ! 2)) AND 0x03"

definition padding :: "byte list \<Rightarrow> int" where
  "padding b = (if 0 < (uint (b ! 2) AND 0x02) then 1 else 0)"

definition mpeg_id :: "byte list \<Rightarrow> int" where
  "mpeg_id b = drop_bit 3 (uint (b ! 1)) AND 0x03"

definition layer_id :: "byte list \<Rightarrow> int" where
  "layer_id b = drop_bit 1 (uint (b ! 1)) AND 0x03"

definition channel_mode :: "byte list \<Rightarrow> int" where
  "channel_mode b = drop_bit 6 (uint (b ! 3)) AND 0x03"

definition invalid_frame :: "byte list \<Rightarrow> bool" where
  "invalid_frame b =
     (\<not> bytes_gt (take 2 b) [0xFF, 0xE0] \<or> 14 < br_id b \<or> br_id b = 0 \<or> sr_id b = 3
        \<or> layer_id b = 0 \<or> mpeg_id b = 1)"

definition frame_bitrate :: "byte list \<Rightarrow> int" where
  "frame_bitrate b =
     bitrate_by_version_by_layer ! nat (mpeg_id b) ! nat (layer_id b) ! nat (br_id b)"

definition frame_samplerate :: "byte list \<Rightarrow> int" where
  "frame_samplerate b = samplerates ! nat (mpeg_id b) ! nat (sr_id b)"

text \<open>The fast path: duration and bitrate from the counts of a Xing header.\<close>

definition xing_result :: "tinytag \<Rightarrow> byte list \<Rightarrow> int \<Rightarrow> int \<Rightarrow> error + tinytag" where
  "xing_result self b xframes byte_count =
     (let spf = (if mpeg_id b \<le> 2 then 576 else samples_per_frame)
      in thn (truediv (real_of_int (xframes * spf)) (real_of_int (frame_samplerate b)))
           (\<lambda>duration.
              thn (truediv (real_of_int (byte_count * 8)) duration)
                (\<lambda>q. Inr (self(''duration'' \<mapsto> PFloat duration,
                               ''bitrate'' \<mapsto> PFloat (q / 1000))))))"

text \<open>The estimate from the frames seen so far, after \<^verbatim>\<open>fh.seek(-128, 2)\<close>.\<close>

definition estimate :: "byte list \<Rightarrow> tinytag \<Rightarrow> scan \<Rightarrow> int \<Rightarrow> error + tinytag \<times> nat" where
  "estimate fh self s samplerate =
     thn (seek_end fh (- 128))
       (\<lambda>p. case audio_offset s of
               None \<Rightarrow> Inl NameError
             | Some off \<Rightarrow>
                 (let audio_stream_size = int p - off
                  in thn (truediv (real_of_int (frame_size_accu s)) (real_of_int (frames s)))
                       (\<lambda>mean_size.
                          thn (truediv (real_of_int audio_stream_size) mean_size)
                            (\<lambda>est_frame_count.
                               thn (truediv (est_frame_count * real_of_int samples_per_frame)
                                      (real_of_int samplerate))
                                 (\<lambda>duration.
                                    Inr (self(''duration'' \<mapsto> PFloat duration,
                                              ''bitrate'' \<mapsto> PFloat (real_of_int (bitrate_accu s)
                                                                      / real_of_int (frames s))),
                                         p))))))"

text \<open>
  The loop of \<^verbatim>\<open>_ID3._determine_duration\<close> over the walker (the bytes of the file from
  \<open>file_offset\<close> on). The result is the object and the position of the file.
\<close>

function mp3_scan :: "byte list \<Rightarrow> byte list \<Rightarrow> int \<Rightarrow> tinytag \<Rightarrow> scan \<Rightarrow> error + tinytag \<times> nat" where
  "mp3_scan fh walker file_offset self s =
     (let b = drop (wpos s) walker
      in if length b < 4
         then thn (after_scan
                     (if frames s \<noteq> 0
                      then self(''bitrate'' \<mapsto> PFloat (real_of_int (bitrate_accu s)
                                                         / real_of_int (frames s)))
                      else self)
                     (frames s))
                (\<lambda>self'. Inr (self', max (length fh) (nat file_offset)))
         else if invalid_frame b
         then (let idx = (case find_bytes b [0xFF] 1 of None \<Rightarrow> length b | Some i \<Rightarrow> i)
               in mp3_scan fh walker file_offset self (s\<lparr>wpos := wpos s + max idx 1\<rparr>))
         else (let self1 = self(''channels'' \<mapsto> PInt (channels_per_channel_mode ! nat (channel_mode b)),
                                ''samplerate'' \<mapsto> PInt (frame_samplerate b));
                   xing = (if frames s = 0 \<and> USE_XING_HEADER then find_bytes b (bytes_of ''Xing'') 0
                           else None)
               in case xing of
                    Some xing_header_offset \<Rightarrow>
                      (case parse_xing_header walker (wpos s + xing_header_offset) of
                         Inl e \<Rightarrow> Inl e
                       | Inr x \<Rightarrow>
                           (if 0 < fst x \<and> 0 < fst (snd x)
                            then thn (xing_result self1 b (fst x) (fst (snd x)))
                                   (\<lambda>self'. Inr (self', max (length fh) (nat file_offset)))
                            else mp3_scan fh walker file_offset self1 (s\<lparr>wpos := snd (snd x)\<rparr>)))
                  | None \<Rightarrow>
                      (let n = frames s + 1;
                           frame_length = (144000 * frame_bitrate b) div frame_samplerate b + padding b;
                           s1 = s\<lparr>frames := n,
                                  bitrate_accu := bitrate_accu s + frame_bitrate b,
                                  audio_offset := (if n = 1 then Some (file_offset + int (wpos s))
                                                   else audio_offset s),
                                  last_bitrates := (if n \<le> CBR_DETECTION_FRAME_COUNT
                                                    then last_bitrates s @ [frame_bitrate b]
                                                    else last_bitrates s),
                                  frame_size_accu := frame_size_accu s + frame_length\<rparr>;
                           is_cbr = (n = CBR_DETECTION_FRAME_COUNT
                                       \<and> length (remdups (last_bitrates s1)) = 1)
                       in if n = max_estimation_frames \<or> is_cbr
                          then estimate fh self1 s1 (frame_samplerate b)
                          else mp3_scan fh walker file_offset self1
                                 (s1\<lparr>wpos := (if 1 < frame_length
                                               then nat (int (wpos s) + 4 + (frame_length - 4))
                                               else wpos s + 4)\<rparr>))))"
  by pat_completeness auto

lemma parse_xing_header_pos:
  "parse_xing_header fh pos = Inr x \<Longrightarrow> pos + 8 \<le> snd (snd x)"
  by (auto simp: parse_xing_header_def thn_def Let_def fread_def unpack_be_signed_def
           split: if_splits sum.splits)

termination mp3_scan
  by (relation "measure (\<lambda>(fh, walker, file_offset, self, s). length walker - wpos s)")
     (auto simp: Let_def dest!: parse_xing_header_pos split: option.splits)

declare mp3_scan.simps [simp del]

definition scan_init :: scan where
  "scan_init = \<lparr>wpos = 0, frames = 0, bitrate_accu = 0, last_bitrates = [],
                frame_size_accu = 0, audio_offset = None\<rparr>"

text \<open>\<^verbatim>\<open>_ID3._determine_duration\<close>.\<close>

definition id3_determine_duration :: "byte list \<Rightarrow> tinytag \<times> nat \<Rightarrow> error + tinytag \<times> nat" where
  "id3_determine_duration fh st =
     thn (if int_attr (fst st) ''_bytepos_after_id3v2'' = - 1
          then thn (parse_id3v2_header fh st) (\<lambda>h. Inr (fst h))
          else Inr st)
       (\<lambda>st1. let file_offset = int_attr (fst st1) ''_bytepos_after_id3v2''
               in if file_offset < 0 then Inl OSError
                  else mp3_scan fh (drop (nat file_offset) fh) file_offset (fst st1) scan_init)"



subsection \<open>What the ID3v2 pass writes\<close>

text \<open>
  The attributes that the ID3v2 pass can write; every other attribute is left as it was,
  and the pass only moves forward in the byte source.
\<close>

definition id3_written :: "string list" where
  "id3_written = [''comment'', ''track'', ''year'', ''album'', ''artist'', ''title'', ''genre'',
                  ''disc'', ''albumartist'', ''track_total'', ''disc_total'', ''extra'',
                  ''_image_data'', ''_bytepos_after_id3v2'']"

lemma set_field_other:
  "set_field self f v = Inr self' \<Longrightarrow> k \<noteq> ''extra'' \<Longrightarrow> k \<noteq> f \<or> take 6 f = ''extra.''
     \<Longrightarrow> self' k = self k"
  by (auto simp: set_field_def thn_def split: if_splits option.splits pyval.splits sum.splits)

lemma parse_custom_field_other:
  assumes "parse_custom_field self c = Inr r" and "k \<noteq> ''extra''"
  shows "snd r k = self k"
proof (cases "takeWhile (\<lambda>x. x \<noteq> NUL) c \<noteq> [] \<and> NUL \<in> set c")
  case True
  with assms(1) obtain self' where
    s: "set_field self (''extra.'' @ py_lower (takeWhile (\<lambda>x. x \<noteq> NUL) c))
          (PStr (drop 1 (dropWhile (\<lambda>x. x \<noteq> NUL) c))) = Inr self'" and r: "r = (True, self')"
    by (auto simp: parse_custom_field_def thn_def Let_def split: sum.splits)
  from set_field_other [OF s assms(2)] r show ?thesis by simp
next
  case False
  with assms(1) show ?thesis
    by (auto simp: parse_custom_field_def thn_def Let_def)
qed

lemma frame_field_other:
  assumes "frame_field L self fieldname v = Inr self'"
    and "k \<noteq> ''extra''" "k \<noteq> fieldname \<or> take 6 fieldname = ''extra.''"
    and "k \<noteq> ''track_total''" "k \<noteq> ''disc_total''"
  shows "self' k = self k"
  using assms
  by (auto simp: frame_field_def thn_def Let_def
           dest!: set_field_other [where k = k] parse_custom_field_other [where k = k]
           split: if_splits sum.splits option.splits)

lemma frame_table_values:
  "list_all (\<lambda>e. snd e \<in> set [''comment'', ''track'', ''year'', ''album'', ''artist'', ''title'',
                                  ''genre'', ''disc'', ''albumartist''] \<or> take 6 (snd e) = ''extra.'')
     FRAME_ID_TO_FIELD"
  by (simp add: FRAME_ID_TO_FIELD_def)

lemma frame_table_range:
  assumes "map_of FRAME_ID_TO_FIELD frame_id = Some f"
  shows "f \<in> {''comment'', ''track'', ''year'', ''album'', ''artist'', ''title'', ''genre'',
              ''disc'', ''albumartist''} \<or> take 6 f = ''extra.''"
proof -
  from assms have "(frame_id, f) \<in> set FRAME_ID_TO_FIELD" by (rule map_of_SomeD)
  with frame_table_values show ?thesis
    unfolding list_all_iff by fastforce
qed

lemma frame_image_other:
  "frame_image self frame_id content = Inr self' \<Longrightarrow> k \<noteq> ''_image_data'' \<Longrightarrow> self' k = self k"
  by (auto simp: frame_image_def thn_def Let_def split: if_splits sum.splits option.splits)

lemma thn_Inr_iff: "thn m f = Inr y \<longleftrightarrow> (\<exists>x. m = Inr x \<and> f x = Inr y)"
  by (cases m) (simp_all add: thn_def)

lemma frame_body_other:
  assumes b: "frame_body L self frame_id content = Inr self'" and k: "k \<notin> set id3_written"
  shows "self' k = self k"
proof (cases "map_of FRAME_ID_TO_FIELD frame_id")
  case (Some f)
  from frame_table_range [OF Some] k
  have kf: "k \<noteq> f \<or> take 6 f = ''extra.''" "k \<noteq> ''extra''" "k \<noteq> ''track_total''"
    "k \<noteq> ''disc_total''"
    by (auto simp: id3_written_def)
  show ?thesis
  proof (cases "attr_truthy self ''_parse_tags''")
    case False
    with b Some show ?thesis by (simp add: frame_body_def)
  next
    case True
    with b Some obtain v where "frame_field L self f v = Inr self'"
      by (auto simp: frame_body_def thn_Inr_iff)
    then show ?thesis by (rule frame_field_other [OF _ kf(2) kf(1) kf(3) kf(4)])
  qed
next
  case None
  from k have ke: "k \<noteq> ''extra''" and ki: "k \<noteq> ''_image_data''"
    by (auto simp: id3_written_def)
  consider (custom) "frame_id \<in> set CUSTOM_FRAME_IDS"
    | (img) "frame_id \<notin> set CUSTOM_FRAME_IDS" "frame_id \<in> set IMAGE_FRAME_IDS"
    | (unknown) "frame_id \<notin> set CUSTOM_FRAME_IDS" "frame_id \<notin> set IMAGE_FRAME_IDS"
        "frame_id \<notin> set DISALLOWED_FRAME_IDS"
    | (dis) "frame_id \<notin> set CUSTOM_FRAME_IDS" "frame_id \<notin> set IMAGE_FRAME_IDS"
        "frame_id \<in> set DISALLOWED_FRAME_IDS"
    by blast
  then show ?thesis
  proof cases
    case custom
    show ?thesis
    proof (cases "attr_truthy self ''_parse_tags''")
      case False
      with b None custom show ?thesis by (simp add: frame_body_def)
    next
      case True
      with b None custom obtain c r where "parse_custom_field self c = Inr r" "self' = snd r"
        by (auto simp: frame_body_def thn_Inr_iff)
      with parse_custom_field_other [OF _ ke] show ?thesis by simp
    qed
  next
    case img
    show ?thesis
    proof (cases "attr_truthy self ''_load_image''")
      case False
      with b None img show ?thesis by (simp add: frame_body_def)
    next
      case True
      with b None img have "frame_image self frame_id content = Inr self'"
        by (simp add: frame_body_def)
      then show ?thesis using ki by (rule frame_image_other)
    qed
  next
    case unknown
    show ?thesis
    proof (cases "attr_truthy self ''_parse_tags''")
      case False
      with b None unknown show ?thesis by (simp add: frame_body_def)
    next
      case True
      with b None unknown obtain v
        where "set_field self (''extra.'' @ py_lower frame_id) (PStr v) = Inr self'"
        by (auto simp: frame_body_def thn_Inr_iff)
      from set_field_other [OF this ke] show ?thesis by simp
    qed
  next
    case dis
    with b None show ?thesis by (simp add: frame_body_def)
  qed
qed

lemma parse_frame_other:
  "parse_frame L fh st v = Inr r \<Longrightarrow> k \<notin> set id3_written \<Longrightarrow> fst (snd r) k = fst st k"
  by (auto simp: parse_frame_def thn_def Let_def dest: frame_body_other
           split: if_splits sum.splits)

lemma parse_frames_other:
  "parse_frames L fh major tag_size parsed_size st = Inr st' \<Longrightarrow> k \<notin> set id3_written
     \<Longrightarrow> fst st' k = fst st k"
proof (induction L fh major tag_size parsed_size st rule: parse_frames.induct)
  case (1 L fh major tag_size parsed_size st)
  show ?case
  proof (cases "parsed_size < tag_size")
    case False
    with "1.prems" show ?thesis by (simp add: parse_frames.simps)
  next
    case True
    with "1.prems"(1) obtain r where r: "parse_frame L fh st major = Inr r"
      by (subst (asm) parse_frames.simps) (auto split: sum.splits)
    from parse_frame_other [OF r "1.prems"(2)] have e: "fst (snd r) k = fst st k" .
    show ?thesis
    proof (cases "fst r = 0")
      case z: True
      with True r "1.prems"(1) have "st' = snd r"
        by (subst (asm) parse_frames.simps) simp
      with e show ?thesis by simp
    next
      case nz: False
      with True r "1.prems"(1)
      have "parse_frames L fh major tag_size (parsed_size + fst r) (snd r) = Inr st'"
        by (subst (asm) parse_frames.simps) simp
      from "1.IH" [OF True r nz this "1.prems"(2)] e show ?thesis by simp
    qed
  qed
qed

lemma parse_id3v2_other:
  assumes "parse_id3v2 L fh st = Inr st'" and "k \<notin> set id3_written"
  shows "fst st' k = fst st k"
  using assms
  by (auto simp: parse_id3v2_def parse_id3v2_header_def thn_def Let_def id3_written_def
           dest!: parse_frames_other [where k = k]
           split: if_splits sum.splits)

lemma calc_size_acc_nonneg:
  "0 \<le> a \<Longrightarrow> 0 \<le> foldl (\<lambda>accu elem. push_bit n accu + elem) a (map uint bs)"
  by (induction bs arbitrary: a) (simp_all add: push_bit_eq_mult)

lemma calc_size_nonneg: "0 \<le> calc_size (map uint bs) n"
  unfolding calc_size_def by (rule calc_size_acc_nonneg) simp

lemma parse_id3v2_pos:
  "parse_id3v2 L fh st = Inr st' \<Longrightarrow> snd st + 10 \<le> snd st'"
  using calc_size_nonneg [of "take 4 (drop 6 (fst (fread fh (snd st) 10)))" 7]
  by (auto simp: parse_id3v2_def parse_id3v2_header_def thn_def Let_def fread_def
           split: if_splits sum.splits)

section \<open>WAV\<close>

definition riff_mapping :: "(string \<times> string) list" where
  "riff_mapping =
     [(''INAM'', ''title''), (''TITL'', ''title''), (''IPRD'', ''album''), (''IART'', ''artist''),
      (''IBPM'', ''extra.bpm''), (''ICMT'', ''comment''), (''IMUS'', ''extra.composer''),
      (''ICOP'', ''extra.copyright''), (''ICRD'', ''year''), (''IGNR'', ''genre''),
      (''ILNG'', ''extra.language''), (''ISRC'', ''extra.isrc''), (''IPUB'', ''extra.publisher''),
      (''IPRT'', ''track''), (''ITRK'', ''track''), (''TRCK'', ''track''), (''PRT1'', ''track''),
      (''PRT2'', ''track_number''), (''IBSU'', ''extra.url''), (''YEAR'', ''year'')]"

text \<open>
  The loop over the sub-chunks of a \<^verbatim>\<open>LIST\<close> chunk of type \<^verbatim>\<open>INFO\<close>, on the bytes of the
  chunk. The native formats of \<^verbatim>\<open>struct\<close> are read as little-endian.
\<close>

function info_loop :: "pylib \<Rightarrow> byte list \<Rightarrow> tinytag \<Rightarrow> nat \<Rightarrow> error + tinytag" where
  "info_loop L sub_fh self pos =
     (let rf = fread sub_fh pos 4; field = fst rf
      in if length field \<noteq> 4 then Inr self
         else (let rl = fread sub_fh (snd rf) 4
               in if length (fst rl) \<noteq> 4 then Inl StructError
                  else (let data_length = le_uint (fst rl) + le_uint (fst rl) mod 2;
                            rd = fread sub_fh (snd rl) data_length;
                            data = takeWhile (\<lambda>b. b \<noteq> 0x00) (fst rd)
                        in case map_of riff_mapping (str_of field) of
                             None \<Rightarrow> info_loop L sub_fh self (snd rd)
                           | Some fieldname \<Rightarrow>
                               (case decode L ''utf-8'' ''strict'' data of
                                  Inl e \<Rightarrow> Inl e
                                | Inr v \<Rightarrow>
                                    (case (if fieldname = ''track''
                                           then (case py_int L v of
                                                   None \<Rightarrow> Inr self
                                                 | Some n \<Rightarrow> set_field self fieldname (PInt n))
                                           else if v \<noteq> [] then set_field self fieldname (PStr v)
                                           else Inr self) of
                                       Inl e \<Rightarrow> Inl e
                                     | Inr self' \<Rightarrow> info_loop L sub_fh self' (snd rd))))))"
  by pat_completeness auto

termination info_loop
  by (relation "measure (\<lambda>(L, sub_fh, self, pos). length sub_fh - pos)")
     (auto simp: fread_def Let_def)

declare info_loop.simps [simp del]

text \<open>
  The duration of a \<^verbatim>\<open>data\<close> chunk:
  \<^verbatim>\<open>subchunksize / self.channels / self.samplerate / (self.bitdepth / 8)\<close>,
  evaluated from left to right.
\<close>

definition wave_duration :: "int \<Rightarrow> pyval \<Rightarrow> pyval \<Rightarrow> pyval \<Rightarrow> error + real" where
  "wave_duration subchunksize channels samplerate bitdepth =
     thn (as_real channels)
       (\<lambda>ch. thn (truediv (real_of_int subchunksize) ch)
         (\<lambda>a. thn (as_real samplerate)
           (\<lambda>sr. thn (truediv a sr)
             (\<lambda>b. thn (as_real bitdepth)
               (\<lambda>bd. thn (truediv bd 8) (\<lambda>c. truediv b c))))))"

definition is_not_none :: "tinytag \<Rightarrow> string \<Rightarrow> bool" where
  "is_not_none self name = (case self name of Some PNone \<Rightarrow> False | Some _ \<Rightarrow> True | None \<Rightarrow> False)"

text \<open>The object that a container decoder creates for an embedded ID3 tag.\<close>

definition nested_id3 :: tinytag where
  "nested_id3 = (class_init ID3)(''_filehandler'' \<mapsto> PObj 0)"

text \<open>
  One iteration of the chunk loop of \<^verbatim>\<open>_Wave._parse_tag\<close>, after the eight bytes of the
  chunk header have been read.
\<close>

definition wave_chunk :: "pylib \<Rightarrow> byte list \<Rightarrow> tinytag \<times> nat \<Rightarrow> byte list \<Rightarrow> error + tinytag \<times> nat" where
  "wave_chunk L fh st chunk_header =
     (let self = fst st; pos = snd st;
          subchunkid = take 4 chunk_header;
          subchunksize = le_uint (drop 4 chunk_header) + le_uint (drop 4 chunk_header) mod 2
      in if subchunkid = bytes_of ''fmt ''
         then (let r1 = fread fh pos 8; r2 = fread fh (snd r1) 8
               in if length (fst r1) \<noteq> 8 \<or> length (fst r2) \<noteq> 8 then Inl StructError
                  else (let channels = le_uint (take 2 (drop 2 (fst r1)));
                            samplerate = le_uint (drop 4 (fst r1));
                            bitdepth = (if le_uint (drop 6 (fst r2)) = 0 then 1
                                        else le_uint (drop 6 (fst r2)));
                            remaining_size = subchunksize - 16
                        in Inr (self(''bitrate'' \<mapsto> PFloat (real_of_int (samplerate * channels * bitdepth)
                                                               / 1000),
                                     ''channels'' \<mapsto> PInt channels,
                                     ''samplerate'' \<mapsto> PInt samplerate,
                                     ''bitdepth'' \<mapsto> PInt bitdepth),
                                if 0 < remaining_size then snd r2 + nat remaining_size else snd r2)))
         else if subchunkid = bytes_of ''data''
         then thn (if is_not_none self ''channels'' \<and> is_not_none self ''samplerate''
                        \<and> is_not_none self ''bitdepth''
                   then thn (wave_duration subchunksize (the (self ''channels''))
                               (the (self ''samplerate'')) (the (self ''bitdepth'')))
                          (\<lambda>d. Inr (self(''duration'' \<mapsto> PFloat d)))
                   else Inr self)
                (\<lambda>self'. Inr (self', pos + nat subchunksize))
         else if subchunkid = bytes_of ''LIST'' \<and> attr_truthy self ''_parse_tags''
         then (let ri = fread fh pos 4
               in if fst ri \<noteq> bytes_of ''INFO''
                  then thn (seek_cur (snd ri) (subchunksize - 4)) (\<lambda>p. Inr (self, p))
                  else (let rs = fread fh (snd ri) (subchunksize - 4)
                        in thn (info_loop L (fst rs) self 0) (\<lambda>self'. Inr (self', snd rs))))
         else if (subchunkid = bytes_of ''id3 '' \<or> subchunkid = bytes_of ''ID3 '')
                   \<and> attr_truthy self ''_parse_tags''
         then thn (load_obj (id3_parse_tag L) id3_determine_duration fh True False
                     (attr_truthy self ''_load_image'') (nested_id3, pos))
                (\<lambda>r. thn (update self (fst r)) (\<lambda>self'. Inr (self', snd r)))
         else Inr (self, pos + nat subchunksize))"

function wave_chunks :: "pylib \<Rightarrow> byte list \<Rightarrow> tinytag \<times> nat \<Rightarrow> error + tinytag \<times> nat" where
  "wave_chunks L fh st =
     (let rh = fread fh (snd st) 8; chunk_header = fst rh
      in if length chunk_header \<noteq> 8 then Inr (fst st, snd rh)
         else (case wave_chunk L fh (fst st, snd rh) chunk_header of
                 Inl e \<Rightarrow> Inl e
               | Inr st' \<Rightarrow> wave_chunks L fh st'))"
  by pat_completeness auto

lemma nested_id3_pos:
  assumes "load_obj (id3_parse_tag L) id3_determine_duration fh True False img (nested_id3, pos)
             = Inr st'"
  shows "pos \<le> snd st'"
proof -
  let ?self = "nested_id3(''_parse_tags'' \<mapsto> PBool True, ''_parse_duration'' \<mapsto> PBool False,
                           ''_load_image'' \<mapsto> PBool img)"
  from assms have t: "id3_parse_tag L fh (?self, pos) = Inr st'"
    by (simp add: load_obj_def Let_def thn_def attr_truthy_def nested_id3_def
          split: if_splits sum.splits)
  then obtain st1 where p: "parse_id3v2 L fh (?self, pos) = Inr st1"
    by (auto simp: id3_parse_tag_def thn_Inr_iff)
  have "fst st1 ''filesize'' = ?self ''filesize''"
    using parse_id3v2_other [OF p, of "''filesize''"] by (simp add: id3_written_def)
  then have "int_attr (fst st1) ''filesize'' = 0"
    by (simp add: int_attr_def nested_id3_def class_init_def tinytag_init_def)
  with t p have "st' = st1" by (simp add: id3_parse_tag_def thn_def)
  with parse_id3v2_pos [OF p] show ?thesis by simp
qed

lemma le_uint_nonneg: "0 \<le> le_uint bs"
proof -
  have "0 \<le> a \<Longrightarrow> 0 \<le> foldl (\<lambda>a b. a * 256 + uint b) a xs" for a :: int and xs :: "byte list"
    by (induction xs arbitrary: a) simp_all
  then show ?thesis by (simp add: le_uint_def be_uint_def)
qed

lemma wave_chunk_pos:
  assumes "wave_chunk L fh (self, pos) chunk_header = Inr st'" and "4 \<le> pos"
  shows "pos \<le> snd st' + 4"
proof -
  have n: "0 \<le> le_uint (drop 4 chunk_header) + le_uint (drop 4 chunk_header) mod 2"
    using le_uint_nonneg [of "drop 4 chunk_header"] by simp
  from assms show ?thesis
    using n
    by (auto simp: wave_chunk_def Let_def thn_Inr_iff fread_def seek_cur_def
             dest!: nested_id3_pos split: if_splits)
qed

termination wave_chunks
proof (relation "measure (\<lambda>(L, fh, st). length fh - snd st)")
  show "wf (measure (\<lambda>(L, fh, st). length fh - snd st))" by simp
next
  fix L fh and st :: "tinytag \<times> nat" and rh chunk_header st'
  assume rh: "rh = fread fh (snd st) 8" and ch: "chunk_header = fst rh"
    and len: "\<not> length chunk_header \<noteq> 8"
    and w: "wave_chunk L fh (fst st, snd rh) chunk_header = Inr st'"
  have a: "snd st + 8 \<le> length fh" "snd rh = snd st + 8"
    using rh ch len by (auto simp: fread_def Let_def)
  from wave_chunk_pos [OF w] a have "snd st + 8 \<le> snd st' + 4" by simp
  with a show "((L, fh, st'), (L, fh, st)) \<in> measure (\<lambda>(L, fh, st). length fh - snd st)"
    by simp
qed

declare wave_chunks.simps [simp del]

text \<open>\<^verbatim>\<open>_Wave._parse_tag\<close> and \<^verbatim>\<open>_Wave._determine_duration\<close>.\<close>

definition wave_parse_tag :: "pylib \<Rightarrow> byte list \<Rightarrow> tinytag \<times> nat \<Rightarrow> error + tinytag \<times> nat" where
  "wave_parse_tag L fh st =
     (let rh = fread fh (snd st) 12
      in if length (fst rh) \<noteq> 12 then Inl StructError
         else if take 4 (fst rh) \<noteq> bytes_of ''RIFF'' \<or> drop 8 (fst rh) \<noteq> bytes_of ''WAVE''
         then Inl (TinyTagException ''Invalid WAV file'')
         else thn (wave_chunks L fh ((fst st)(''bitdepth'' \<mapsto> PInt 16), snd rh))
                (\<lambda>st'. Inr ((fst st')(''_tags_parsed'' \<mapsto> PBool True), snd st')))"

definition wave_determine_duration :: "pylib \<Rightarrow> byte list \<Rightarrow> tinytag \<times> nat \<Rightarrow> error + tinytag \<times> nat" where
  "wave_determine_duration L fh st =
     (if \<not> attr_truthy (fst st) ''_tags_parsed'' then wave_parse_tag L fh st else Inr st)"

text \<open>
  The states of the chunk loop of \<^verbatim>\<open>_Wave._parse_tag\<close> started on \<open>st0\<close>: the state after
  the \<^verbatim>\<open>RIFF\<close> header, and the state after each chunk.
\<close>

inductive wave_state :: "pylib \<Rightarrow> byte list \<Rightarrow> tinytag \<times> nat \<Rightarrow> tinytag \<times> nat \<Rightarrow> bool"
  for L :: pylib and fh :: "byte list" and st0 :: "tinytag \<times> nat" where
  start: "length (fst (fread fh (snd st0) 12)) = 12
          \<Longrightarrow> take 4 (fst (fread fh (snd st0) 12)) = bytes_of ''RIFF''
          \<Longrightarrow> drop 8 (fst (fread fh (snd st0) 12)) = bytes_of ''WAVE''
          \<Longrightarrow> wave_state L fh st0 ((fst st0)(''bitdepth'' \<mapsto> PInt 16), snd (fread fh (snd st0) 12))"
| step: "wave_state L fh st0 st
         \<Longrightarrow> length (fst (fread fh (snd st) 8)) = 8
         \<Longrightarrow> wave_chunk L fh (fst st, snd (fread fh (snd st) 8)) (fst (fread fh (snd st) 8)) = Inr st'
         \<Longrightarrow> wave_state L fh st0 st'"

definition bitdepth_ok :: "tinytag \<Rightarrow> bool" where
  "bitdepth_ok self = (case self ''bitdepth'' of Some (PInt n) \<Rightarrow> 1 \<le> n | _ \<Rightarrow> False)"

text \<open>The divisor \<^verbatim>\<open>self.bitdepth / 8\<close> of the duration of a \<^verbatim>\<open>data\<close> chunk.\<close>

definition bitdepth_divisor :: "tinytag \<Rightarrow> error + real" where
  "bitdepth_divisor self = thn (as_real (the (self ''bitdepth''))) (\<lambda>bd. truediv bd 8)"

section \<open>Ogg pages\<close>

text \<open>
  \<^verbatim>\<open>_Ogg._parse_pages\<close> is a generator. The model runs it to its end: it returns the
  packets yielded in order, the object (with \<^verbatim>\<open>_max_samplenum\<close>), the position of the byte
  source and the exception that ended the run, if one did. \<open>segments_loop\<close> is the
  \<^verbatim>\<open>for segsize in segsizes\<close> loop: the packets it yields, and the position,
  \<^verbatim>\<open>previous_page\<close> and \<^verbatim>\<open>total\<close> (here \<open>seg_total\<close>) after it.
\<close>

fun segments_loop :: "byte list \<Rightarrow> int list \<Rightarrow> nat \<Rightarrow> byte list \<Rightarrow> int
                        \<Rightarrow> byte list list \<times> nat \<times> byte list \<times> int" where
  "segments_loop fh [] pos previous_page seg_total = ([], pos, previous_page, seg_total)"
| "segments_loop fh (segsize # segsizes) pos previous_page seg_total =
     (if seg_total + segsize < 255
      then (let rd = fread fh pos (seg_total + segsize);
                r = segments_loop fh segsizes (snd rd) [] 0
            in ((previous_page @ fst rd) # fst r, snd r))
      else segments_loop fh segsizes pos previous_page (seg_total + segsize))"

lemma segments_loop_pos:
  "pos \<le> fst (snd (segments_loop fh segsizes pos previous_page seg_total))"
proof (induction segsizes arbitrary: pos previous_page seg_total)
  case Nil
  then show ?case by simp
next
  case (Cons segsize segsizes)
  have "pos \<le> snd (fread fh pos n)" for n
    by (simp add: fread_def Let_def)
  then show ?case
    using Cons.IH order_trans by (fastforce simp: Let_def)
qed

function parse_pages :: "byte list \<Rightarrow> tinytag \<times> nat \<Rightarrow> byte list
                           \<Rightarrow> byte list list \<times> tinytag \<times> nat \<times> error option" where
  "parse_pages fh st previous_page =
     (let rh = fread fh (snd st) 27; header_data = fst rh
      in if length header_data \<noteq> 27 then ([], fst st, snd rh, None)
         else (let oggs = take 4 header_data;
                   version = uint (header_data ! 4);
                   pos = to_signed 64 (le_uint (take 8 (drop 6 header_data)));
                   segments = unat (header_data ! 26);
                   self = (fst st)(''_max_samplenum'' \<mapsto>
                             PInt (max (int_attr (fst st) ''_max_samplenum'') pos))
               in if oggs \<noteq> bytes_of ''OggS'' \<or> version \<noteq> 0
                  then ([], self, snd rh, Some (TinyTagException ''Invalid OGG file''))
                  else (let rs = fread fh (snd rh) (int segments)
                        in if length (fst rs) \<noteq> segments then ([], self, snd rs, Some StructError)
                           else (let l = segments_loop fh (map uint (fst rs)) (snd rs) previous_page 0;
                                     seg_total = snd (snd (snd l));
                                     rt = fread fh (fst (snd l)) seg_total;
                                     carried = (seg_total \<noteq> 0 \<and> seg_total mod 255 = 0);
                                     last_packet = (if seg_total \<noteq> 0 \<and> seg_total mod 255 \<noteq> 0
                                                    then [fst (snd (snd l)) @ fst rt] else []);
                                     r = parse_pages fh
                                           (self, if seg_total \<noteq> 0 then snd rt else fst (snd l))
                                           (if carried then fst (snd (snd l)) @ fst rt
                                            else if seg_total \<noteq> 0 then [] else fst (snd (snd l)))
                                 in (fst l @ last_packet @ fst r, snd r)))))"
  by pat_completeness auto

termination parse_pages
proof (relation "measure (\<lambda>(fh, st, previous_page). length fh - snd st)")
  show "wf (measure (\<lambda>(fh, st, previous_page). length fh - snd st))" by simp
next
  fix fh :: "byte list" and st :: "tinytag \<times> nat" and previous_page :: "byte list"
    and rh header_data oggs version pos segments self rs l seg_total rt carried last_packet
  assume rh: "rh = fread fh (snd st) 27" and hd: "header_data = fst rh"
    and len: "\<not> length header_data \<noteq> 27"
    and rs: "rs = fread fh (snd rh) (int segments)"
    and l: "l = segments_loop fh (map uint (fst rs)) (snd rs) previous_page 0"
    and rt: "rt = fread fh (fst (snd l)) seg_total"
  have a: "snd st + 27 \<le> length fh" "snd rh = snd st + 27"
    using rh hd len by (auto simp: fread_def Let_def)
  have b: "snd rh \<le> snd rs" using rs by (simp add: fread_def Let_def)
  have c: "snd rs \<le> fst (snd l)" unfolding l by (rule segments_loop_pos)
  have d: "fst (snd l) \<le> snd rt" using rt by (simp add: fread_def Let_def)
  show "((fh, (self, if seg_total \<noteq> 0 then snd rt else fst (snd l)),
          if carried then fst (snd (snd l)) @ fst rt
          else if seg_total \<noteq> 0 then [] else fst (snd (snd l))),
         (fh, st, previous_page))
        \<in> measure (\<lambda>(fh, st, previous_page). length fh - snd st)"
    using a b c d by auto
qed

declare parse_pages.simps [simp del]

text \<open>
  The reading of the specification. A page is a segment table and a body; in a well-formed
  page every segment size is at most 255 and the body has the sum of the sizes as its
  length. A logical packet is the concatenation of consecutive segments up to and
  including the first one shorter than 255 bytes, across page boundaries.
\<close>

fun page_segments :: "nat list \<Rightarrow> byte list \<Rightarrow> (nat \<times> byte list) list" where
  "page_segments [] body = []"
| "page_segments (n # ns) body = (n, take n body) # page_segments ns (drop n body)"

fun packets_spec :: "(nat \<times> byte list) list \<Rightarrow> byte list \<Rightarrow> byte list list" where
  "packets_spec [] acc = []"
| "packets_spec ((n, seg) # segs) acc =
     (if n < 255 then (acc @ seg) # packets_spec segs [] else packets_spec segs (acc @ seg))"

definition ogg_packets_spec :: "(nat list \<times> byte list) list \<Rightarrow> byte list list" where
  "ogg_packets_spec pages = packets_spec (concat (map (\<lambda>p. page_segments (fst p) (snd p)) pages)) []"

definition well_formed_page :: "nat list \<times> byte list \<Rightarrow> bool" where
  "well_formed_page p =
     (list_all (\<lambda>n. n \<le> 255) (fst p) \<and> length (fst p) \<le> 255 \<and> length (snd p) = sum_list (fst p))"

text \<open>
  The bytes of a page: the capture pattern, version 0, no flags, a granule position of 0,
  serial number, sequence number and checksum 0 (the parser reads none of them but the
  granule position), the segment count, the segment table and the body.
\<close>

definition page_bytes :: "nat list \<times> byte list \<Rightarrow> byte list" where
  "page_bytes p =
     bytes_of ''OggS'' @ [0x00, 0x00] @ replicate 8 0x00 @ replicate 12 0x00
       @ [of_nat (length (fst p))] @ map of_nat (fst p) @ snd p"

definition ogg_stream :: "(nat list \<times> byte list) list \<Rightarrow> byte list" where
  "ogg_stream pages = concat (map page_bytes pages)"

section \<open>Example inputs\<close>


text \<open>
  A well-formed Ogg page holding a packet of 265 bytes (segments of 255 and 10 bytes)
  followed by a packet of 20 bytes; and a packet of 265 bytes split over two pages.
\<close>

definition ogg_two_packets_page :: "nat list \<times> byte list" where
  "ogg_two_packets_page = ([255, 10, 20], replicate 255 0x01 @ replicate 10 0x02 @ replicate 20 0x03)"

definition ogg_spanning_pages :: "(nat list \<times> byte list) list" where
  "ogg_spanning_pages = [([255], replicate 255 0x01), ([10], replicate 10 0x02)]"

section \<open>Theorems\<close>

subsection \<open>Synchsafe sizes\<close>

lemma and_127: "(x::int) AND 127 = x mod 128"
proof -
  have "x AND mask 7 = x mod 2 ^ 7"
    by (simp only: take_bit_eq_mod flip: take_bit_eq_mask)
  then show ?thesis by (simp add: mask_eq_exp_minus_1)
qed

lemma synchsafe_digits:
  fixes n :: int
  assumes "0 \<le> n" and "n < 2 ^ 28"
  shows "2097152 * (n div 2097152 mod 128) + 16384 * (n div 16384 mod 128)
           + 128 * (n div 128 mod 128) + n mod 128 = n"
proof -
  define q1 where "q1 = n div 128"
  define q2 where "q2 = q1 div 128"
  define q3 where "q3 = q2 div 128"
  have d2: "n div 16384 = q2"
    unfolding q2_def q1_def by (simp add: zdiv_zmult2_eq [symmetric])
  have d3: "n div 2097152 = q3"
    unfolding q3_def q2_def q1_def by (simp add: zdiv_zmult2_eq [symmetric])
  have "0 \<le> q3" using assms(1) d3 [symmetric] by (simp add: pos_imp_zdiv_nonneg_iff)
  moreover have "q3 < 128" using assms(2) d3 [symmetric] by simp
  ultimately have m3: "q3 mod 128 = q3" by simp
  have m2: "q2 mod 128 = q2 - 128 * q3"
    unfolding q3_def by (simp add: minus_mult_div_eq_mod)
  have m1: "q1 mod 128 = q1 - 128 * q2"
    unfolding q2_def by (simp add: minus_mult_div_eq_mod)
  have m0: "n mod 128 = n - 128 * q1"
    unfolding q1_def by (simp add: minus_mult_div_eq_mod)
  show ?thesis
    unfolding d2 d3 q1_def [symmetric] m3 m2 m1 m0 by simp
qed

lemma calc_size_synchsafe:
  "calc_size (synchsafe_encode_spec n) 7 =
     2097152 * (n div 2097152 mod 128) + 16384 * (n div 16384 mod 128)
       + 128 * (n div 128 mod 128) + n mod 128"
  by (simp add: calc_size_def synchsafe_encode_spec_def push_bit_eq_mult drop_bit_eq_div and_127)

text \<open>
  Claim C5. For every 28-bit integer \<open>n\<close> (\<open>0 \<le> n < 2^28\<close>), encoding \<open>n\<close> as four
  synchsafe bytes (seven payload bits per byte, most significant first) and decoding
  them with \<^verbatim>\<open>_calc_size\<close> at seven bits per byte returns \<open>n\<close>.
\<close>

theorem synchsafe_roundtrip:
  "0 \<le> n \<Longrightarrow> n < 2 ^ 28 \<Longrightarrow> calc_size (synchsafe_encode_spec n) 7 = n"
  by (simp only: calc_size_synchsafe synchsafe_digits)

theorem synchsafe_roundtrip_witness:
  "(0::int) \<le> 123456789 \<and> (123456789::int) < 2 ^ 28
     \<and> synchsafe_encode_spec 123456789 = [58, 111, 26, 21]
     \<and> calc_size (synchsafe_encode_spec 123456789) 7 = 123456789"
  using synchsafe_roundtrip [of 123456789]
  by (simp add: synchsafe_encode_spec_def drop_bit_eq_div and_127)

subsection \<open>The tag accumulator\<close>








subsection \<open>The entry point on an empty byte source\<close>














subsection \<open>The Xing fast path of the MP3 duration estimate\<close>


lemma and_15: "(x::int) AND 15 = x mod 16"
proof -
  have "x AND mask 4 = x mod 2 ^ 4"
    by (simp only: take_bit_eq_mod flip: take_bit_eq_mask)
  then show ?thesis by (simp add: mask_eq_exp_minus_1)
qed














subsection \<open>Ogg packet reassembly\<close>

text \<open>
  Claim C4 fails on the code. On the well-formed page with the segment table
  \<open>[255, 10, 20]\<close> the segment of 10 bytes ends the first packet, so the page holds a
  packet of 265 bytes and a packet of 20 bytes; \<^verbatim>\<open>_parse_pages\<close> compares the running
  total, not the segment size, with 255 and yields a single packet of 285 bytes. The
  packet that spans two pages is reassembled as the claim says.
\<close>

theorem parse_pages_merges_packets:
  "well_formed_page ogg_two_packets_page
   \<and> ogg_packets_spec [ogg_two_packets_page]
       = [replicate 255 0x01 @ replicate 10 0x02, replicate 20 0x03]
   \<and> fst (parse_pages (ogg_stream [ogg_two_packets_page]) (class_init Ogg, 0) [])
       = [replicate 255 0x01 @ replicate 10 0x02 @ replicate 20 0x03]
   \<and> snd (snd (snd (parse_pages (ogg_stream [ogg_two_packets_page]) (class_init Ogg, 0) []))) = None
   \<and> list_all well_formed_page ogg_spanning_pages
   \<and> ogg_packets_spec ogg_spanning_pages = [replicate 255 0x01 @ replicate 10 0x02]
   \<and> fst (parse_pages (ogg_stream ogg_spanning_pages) (class_init Ogg, 0) [])
       = [replicate 255 0x01 @ replicate 10 0x02]"
proof -
  have 1: "well_formed_page ogg_two_packets_page" by code_simp
  have 2: "ogg_packets_spec [ogg_two_packets_page]
           = [replicate 255 0x01 @ replicate 10 0x02, replicate 20 0x03]" by code_simp
  have 3: "fst (parse_pages (ogg_stream [ogg_two_packets_page]) (class_init Ogg, 0) [])
           = [replicate 255 0x01 @ replicate 10 0x02 @ replicate 20 0x03]" by code_simp
  have 4: "snd (snd (snd (parse_pages (ogg_stream [ogg_two_packets_page]) (class_init Ogg, 0) [])))
           = None" by code_simp
  have 5: "list_all well_formed_page ogg_spanning_pages" by code_simp
  have 6: "ogg_packets_spec ogg_spanning_pages = [replicate 255 0x01 @ replicate 10 0x02]"
    by code_simp
  have 7: "fst (parse_pages (ogg_stream ogg_spanning_pages) (class_init Ogg, 0) [])
           = [replicate 255 0x01 @ replicate 10 0x02]" by code_simp
  show ?thesis using 1 2 3 4 5 6 7 by (intro conjI)
qed

end
